theory Spec2Isabelle
  imports Complex_Main
begin

section \<open>Text helpers of the Python runtime\<close>

text \<open>
  Python strings are modelled as \<^typ>\<open>string\<close>; the development treats text as ASCII, so
  \<open>len\<close> is \<^const>\<open>length\<close>. \<open>str.strip()\<close> removes the characters for which
  \<open>str.isspace\<close> holds (in the ASCII range: codes 9 to 13, 28 to 31 and 32) from both ends,
  \<open>str.lower()\<close> maps \<open>A\<close>..\<open>Z\<close> to \<open>a\<close>..\<open>z\<close>.
\<close>

definition is_space :: "char \<Rightarrow> bool" where
  "is_space c =
     (let n = (of_char c :: nat) in (9 \<le> n \<and> n \<le> 13) \<or> (28 \<le> n \<and> n \<le> 31) \<or> n = 32)"

definition strip :: "string \<Rightarrow> string" where
  "strip s = rev (dropWhile is_space (rev (dropWhile is_space s)))"

definition lower_char :: "char \<Rightarrow> char" where
  "lower_char c =
     (case map_of (zip ''ABCDEFGHIJKLMNOPQRSTUVWXYZ'' ''abcdefghijklmnopqrstuvwxyz'') c of
        None \<Rightarrow> c
      | Some l \<Rightarrow> l)"

definition lower :: "string \<Rightarrow> string" where
  "lower s = map lower_char s"

section \<open>models.py: definition cleaning\<close>

text \<open>
  \<^verbatim>\<open>
  def _clean_definition(self, definition: str) -> str:
      if not definition:
          return "No definition available"
      definition = definition.strip()
      if definition in ['Trending slang term', 'Approved slang term', '']:
          return "No definition available"
      if len(definition) > 300:
          return definition[:297] + "..."
      return definition
  \<close>
  The argument is a column value, which may be NULL (\<open>None\<close>).
\<close>

definition no_definition_available :: string where
  "no_definition_available = ''No definition available''"

definition clean_definition :: "string option \<Rightarrow> string" where
  "clean_definition definition =
     (case definition of
        None \<Rightarrow> no_definition_available
      | Some s \<Rightarrow>
          if s = [] then no_definition_available
          else
            let d = strip s in
            if d \<in> set [''Trending slang term'', ''Approved slang term'', '''']
            then no_definition_available
            else if length d > 300 then take 297 d @ ''...''
            else d)"

section \<open>models.py: the tables\<close>

text \<open>
  The three tables of \<open>init_database\<close>. A table is the list of its rows in insertion
  order. Timestamps (\<open>CURRENT_TIMESTAMP\<close>) are opaque natural numbers handed to each
  statement that reads the clock. \<open>id INTEGER PRIMARY KEY\<close> is the SQLite rowid.
\<close>

type_synonym timestamp = nat

record term_row =
  st_id :: nat
  st_term :: string
  st_definition :: "string option"
  st_category :: string
  st_approval_status :: string
  st_approved_by :: "string option"
  st_approved_at :: "timestamp option"
  st_rejection_reason :: "string option"
  st_first_seen :: timestamp

record mention_row =
  m_id :: nat
  m_term_id :: nat
  m_platform :: string
  m_content :: string
  m_engagement_score :: int
  m_detected_at :: timestamp

record trend_row =
  dt_id :: nat
  dt_term_id :: nat
  dt_date :: timestamp
  dt_mention_count :: int
  dt_total_engagement :: int
  dt_momentum_score :: rat

record database =
  slang_terms :: "term_row list"
  mentions :: "mention_row list"
  daily_trends :: "trend_row list"

definition init_database :: database where
  "init_database = \<lparr>slang_terms = [], mentions = [], daily_trends = []\<rparr>"

text \<open>
  A row inserted without an explicit rowid gets one more than the largest rowid in use,
  and 1 in an empty table.
\<close>

definition next_rowid :: "nat list \<Rightarrow> nat" where
  "next_rowid ids = Suc (fold max ids 0)"

text \<open>The constraints of the schema: \<open>PRIMARY KEY\<close> on the ids, \<open>UNIQUE\<close> on \<open>term\<close>.\<close>

definition db_constraints :: "database \<Rightarrow> bool" where
  "db_constraints db =
     (distinct (map st_id (slang_terms db)) \<and> distinct (map st_term (slang_terms db)))"

datatype py_error = ValueError

section \<open>models.py: writing operations\<close>

text \<open>
  \<open>add_term\<close>: the \<open>INSERT\<close> raises \<open>sqlite3.IntegrityError\<close> exactly when a row with
  the normalised term exists (\<open>term TEXT UNIQUE\<close>); the handler then looks the row up and
  replaces its definition when
  \<^verbatim>\<open>definition and definition.strip() and (not current_def or
    current_def in ['Trending slang term', 'Approved slang term'] or
    len(definition.strip()) > len(current_def.strip()))\<close>.
\<close>

definition better_definition :: "string option \<Rightarrow> string option \<Rightarrow> bool" where
  "better_definition definition current_def =
     (case definition of
        None \<Rightarrow> False
      | Some d \<Rightarrow>
          d \<noteq> [] \<and> strip d \<noteq> [] \<and>
          (case current_def of
             None \<Rightarrow> True
           | Some c \<Rightarrow>
               c = [] \<or> c \<in> set [''Trending slang term'', ''Approved slang term''] \<or>
               length (strip d) > length (strip c)))"

definition add_term ::
  "timestamp \<Rightarrow> database \<Rightarrow> string \<Rightarrow> string option \<Rightarrow> string \<Rightarrow> (py_error + nat) \<times> database"
where
  "add_term now db term_name definition category =
     (let key = strip (lower term_name) in
      if \<not> list_ex (\<lambda>r. st_term r = key) (slang_terms db) then
        let term_id = next_rowid (map st_id (slang_terms db)) in
        (Inr term_id,
         db\<lparr>slang_terms := slang_terms db @
           [\<lparr>st_id = term_id, st_term = key, st_definition = definition,
             st_category = category, st_approval_status = ''pending'',
             st_approved_by = None, st_approved_at = None, st_rejection_reason = None,
             st_first_seen = now\<rparr>]\<rparr>)
      else
        (case find (\<lambda>r. st_term r = key) (slang_terms db) of
           None \<Rightarrow> (Inl ValueError, db)
         | Some result \<Rightarrow>
             let term_id = st_id result; current_def = st_definition result in
             if better_definition definition current_def then
               (Inr term_id,
                db\<lparr>slang_terms :=
                  map (\<lambda>r. if st_id r = term_id then r\<lparr>st_definition := definition\<rparr> else r)
                    (slang_terms db)\<rparr>)
             else (Inr term_id, db)))"

text \<open>
  \<open>add_mention\<close> calls \<open>add_term(term)\<close> (no definition, category \<open>general\<close>) and inserts
  one mention row with \<open>content[:500]\<close>. The two statements read the clock separately. An
  exception of \<open>add_term\<close> propagates.
\<close>

definition add_mention ::
  "timestamp \<Rightarrow> timestamp \<Rightarrow> database \<Rightarrow> string \<Rightarrow> string \<Rightarrow> string \<Rightarrow> int
     \<Rightarrow> (py_error + bool) \<times> database"
where
  "add_mention now_term now_mention db term_name platform content engagement =
     (case add_term now_term db term_name None ''general'' of
        (Inl e, db1) \<Rightarrow> (Inl e, db1)
      | (Inr term_id, db1) \<Rightarrow>
          (Inr True,
           db1\<lparr>mentions := mentions db1 @
             [\<lparr>m_id = next_rowid (map m_id (mentions db1)), m_term_id = term_id,
               m_platform = platform, m_content = take 500 content,
               m_engagement_score = engagement, m_detected_at = now_mention\<rparr>]\<rparr>))"

definition approve_term :: "timestamp \<Rightarrow> database \<Rightarrow> string \<Rightarrow> string \<Rightarrow> bool \<times> database" where
  "approve_term now db term_name approved_by =
     (let key = strip (lower term_name) in
      (list_ex (\<lambda>r. st_term r = key) (slang_terms db),
       db\<lparr>slang_terms :=
         map (\<lambda>r. if st_term r = key
                  then r\<lparr>st_approval_status := ''approved'', st_approved_by := Some approved_by,
                         st_approved_at := Some now\<rparr>
                  else r)
           (slang_terms db)\<rparr>))"

definition reject_term ::
  "timestamp \<Rightarrow> database \<Rightarrow> string \<Rightarrow> string \<Rightarrow> string \<Rightarrow> bool \<times> database"
where
  "reject_term now db term_name reason rejected_by =
     (let key = strip (lower term_name) in
      (list_ex (\<lambda>r. st_term r = key) (slang_terms db),
       db\<lparr>slang_terms :=
         map (\<lambda>r. if st_term r = key
                  then r\<lparr>st_approval_status := ''rejected'', st_rejection_reason := Some reason,
                         st_approved_by := Some rejected_by, st_approved_at := Some now\<rparr>
                  else r)
           (slang_terms db)\<rparr>))"

definition delete_term :: "database \<Rightarrow> string \<Rightarrow> bool \<times> database" where
  "delete_term db term_name =
     (case find (\<lambda>r. st_term r = strip (lower term_name)) (slang_terms db) of
        None \<Rightarrow> (False, db)
      | Some result \<Rightarrow>
          let term_id = st_id result in
          (list_ex (\<lambda>r. st_id r = term_id) (slang_terms db),
           db\<lparr>mentions := filter (\<lambda>m. m_term_id m \<noteq> term_id) (mentions db),
              daily_trends := filter (\<lambda>d. dt_term_id d \<noteq> term_id) (daily_trends db),
              slang_terms := filter (\<lambda>r. st_id r \<noteq> term_id) (slang_terms db)\<rparr>))"

text \<open>The loop of \<open>bulk_delete_terms\<close>, with its counter.\<close>

fun bulk_delete_loop :: "database \<Rightarrow> nat \<Rightarrow> string list \<Rightarrow> nat \<times> database" where
  "bulk_delete_loop db deleted_count [] = (deleted_count, db)"
| "bulk_delete_loop db deleted_count (t # ts) =
     (case delete_term db t of
        (True, db1) \<Rightarrow> bulk_delete_loop db1 (deleted_count + 1) ts
      | (False, db1) \<Rightarrow> bulk_delete_loop db1 deleted_count ts)"

definition bulk_delete_terms :: "database \<Rightarrow> string list \<Rightarrow> nat \<times> database" where
  "bulk_delete_terms db terms = bulk_delete_loop db 0 terms"

text \<open>
  \<open>bulk_approve_terms\<close> runs its own \<open>UPDATE ... WHERE term = ? AND approval_status =
  'pending'\<close> per element and counts the statements with \<open>rowcount > 0\<close>. Each statement
  reads the clock: \<open>clock i\<close> is the time of the statement for the element at position \<open>i\<close>.
\<close>

fun bulk_approve_loop ::
  "(nat \<Rightarrow> timestamp) \<Rightarrow> string \<Rightarrow> database \<Rightarrow> nat \<Rightarrow> nat \<Rightarrow> string list \<Rightarrow> nat \<times> database"
where
  "bulk_approve_loop clock approved_by db approved_count i [] = (approved_count, db)"
| "bulk_approve_loop clock approved_by db approved_count i (t # ts) =
     (let key = strip (lower t);
          hit = (\<lambda>r. st_term r = key \<and> st_approval_status r = ''pending'');
          db1 = db\<lparr>slang_terms :=
                  map (\<lambda>r. if hit r
                           then r\<lparr>st_approval_status := ''approved'',
                                  st_approved_by := Some approved_by,
                                  st_approved_at := Some (clock i)\<rparr>
                           else r)
                    (slang_terms db)\<rparr>
      in if list_ex hit (slang_terms db)
         then bulk_approve_loop clock approved_by db1 (approved_count + 1) (Suc i) ts
         else bulk_approve_loop clock approved_by db1 approved_count (Suc i) ts)"

definition bulk_approve_terms ::
  "(nat \<Rightarrow> timestamp) \<Rightarrow> database \<Rightarrow> string list \<Rightarrow> string \<Rightarrow> nat \<times> database"
where
  "bulk_approve_terms clock db terms approved_by = bulk_approve_loop clock approved_by db 0 0 terms"

section \<open>models.py: aggregation queries\<close>

text \<open>
  \<open>ORDER BY\<close> as a stable insertion sort: \<open>before x y\<close> says that \<open>x\<close> may stand in front
  of \<open>y\<close>. SQL leaves the order of ties open; the model keeps table order there. The same
  function models Python's stable \<open>sorted\<close>.
\<close>

fun insort_by :: "('a \<Rightarrow> 'a \<Rightarrow> bool) \<Rightarrow> 'a \<Rightarrow> 'a list \<Rightarrow> 'a list" where
  "insort_by before x [] = [x]"
| "insort_by before x (y # ys) =
     (if before x y then x # y # ys else y # insort_by before x ys)"

definition sort_by :: "('a \<Rightarrow> 'a \<Rightarrow> bool) \<Rightarrow> 'a list \<Rightarrow> 'a list" where
  "sort_by before xs = foldr (insort_by before) xs []"

text \<open>\<open>LIMIT ?\<close>: a negative bound means no bound.\<close>

definition sql_limit :: "int \<Rightarrow> 'a list \<Rightarrow> 'a list" where
  "sql_limit n xs = (if n < 0 then xs else take (nat n) xs)"

text \<open>
  \<open>COUNT(m.id)\<close> and \<open>AVG(m.engagement_score)\<close> over the mentions joined to a term; the
  average of no rows is NULL. Averages are exact rationals here, where SQLite computes
  a double.
\<close>

definition mention_count :: "database \<Rightarrow> nat \<Rightarrow> nat" where
  "mention_count db tid = length (filter (\<lambda>m. m_term_id m = tid) (mentions db))"

definition avg_engagement :: "database \<Rightarrow> nat \<Rightarrow> rat option" where
  "avg_engagement db tid =
     (let ms = filter (\<lambda>m. m_term_id m = tid) (mentions db) in
      if ms = [] then None
      else Some (of_int (sum_list (map m_engagement_score ms)) / of_nat (length ms)))"

text \<open>\<open>round(row[9] or 0, 1)\<close>: to one decimal, ties to the even digit.\<close>

definition py_round1 :: "rat option \<Rightarrow> rat" where
  "py_round1 v =
     (case v of
        None \<Rightarrow> 0
      | Some q \<Rightarrow>
          let y = q * 10; f = \<lfloor>y\<rfloor>; d = y - of_int f;
              r = (if d < 1 / 2 then f else if 1 / 2 < d then f + 1
                   else if even f then f else f + 1)
          in of_int r / 10)"

text \<open>\<open>ORDER BY mentions DESC, avg_engagement DESC\<close>; NULL is the smallest value.\<close>

definition avg_ge :: "rat option \<Rightarrow> rat option \<Rightarrow> bool" where
  "avg_ge a b =
     (case b of None \<Rightarrow> True | Some y \<Rightarrow> (case a of None \<Rightarrow> False | Some x \<Rightarrow> y \<le> x))"

definition trending_order :: "database \<Rightarrow> term_row \<Rightarrow> term_row \<Rightarrow> bool" where
  "trending_order db x y =
     (mention_count db (st_id y) < mention_count db (st_id x) \<or>
      (mention_count db (st_id y) = mention_count db (st_id x) \<and>
       avg_ge (avg_engagement db (st_id x)) (avg_engagement db (st_id y))))"

record trending_entry =
  tr_id :: nat
  tr_term :: string
  tr_definition :: string
  tr_category :: string
  tr_approval_status :: string
  tr_approved_by :: "string option"
  tr_approved_at :: "timestamp option"
  tr_rejection_reason :: "string option"
  tr_mentions :: nat
  tr_avg_engagement :: rat
  tr_first_seen :: timestamp

text \<open>
  In every query below the join is grouped by \<open>st.id\<close>, the primary key, so each group
  is one term row with the mentions whose \<open>term_id\<close> is its id.
\<close>

definition trending_dict :: "database \<Rightarrow> term_row \<Rightarrow> trending_entry" where
  "trending_dict db st =
     \<lparr>tr_id = st_id st, tr_term = st_term st,
      tr_definition = clean_definition (st_definition st),
      tr_category = st_category st, tr_approval_status = st_approval_status st,
      tr_approved_by = st_approved_by st, tr_approved_at = st_approved_at st,
      tr_rejection_reason = st_rejection_reason st,
      tr_mentions = mention_count db (st_id st),
      tr_avg_engagement = py_round1 (avg_engagement db (st_id st)),
      tr_first_seen = st_first_seen st\<rparr>"

text \<open>The rows the \<open>SELECT\<close> of \<open>get_trending_terms\<close> returns, then the loop over them.\<close>

definition trending_select :: "database \<Rightarrow> int \<Rightarrow> string \<Rightarrow> term_row list" where
  "trending_select db limit status =
     sql_limit limit
       (sort_by (trending_order db)
         (filter (\<lambda>st. mention_count db (st_id st) > 0)
           (filter (\<lambda>st. status = ''all'' \<or> st_approval_status st = status)
             (slang_terms db))))"

definition get_trending_terms :: "database \<Rightarrow> int \<Rightarrow> string \<Rightarrow> trending_entry list" where
  "get_trending_terms db limit status = map (trending_dict db) (trending_select db limit status)"

record approved_entry =
  ap_id :: nat
  ap_term :: string
  ap_definition :: string
  ap_category :: string
  ap_mentions :: nat
  ap_avg_engagement :: rat
  ap_first_seen :: timestamp
  ap_approved_at :: "timestamp option"

definition approved_dict :: "database \<Rightarrow> term_row \<Rightarrow> approved_entry" where
  "approved_dict db st =
     \<lparr>ap_id = st_id st, ap_term = st_term st,
      ap_definition = clean_definition (st_definition st),
      ap_category = st_category st,
      ap_mentions = mention_count db (st_id st),
      ap_avg_engagement = py_round1 (avg_engagement db (st_id st)),
      ap_first_seen = st_first_seen st, ap_approved_at = st_approved_at st\<rparr>"

definition approved_select :: "database \<Rightarrow> int \<Rightarrow> term_row list" where
  "approved_select db limit =
     sql_limit limit
       (sort_by (trending_order db)
         (filter (\<lambda>st. mention_count db (st_id st) > 0)
           (filter (\<lambda>st. st_approval_status st = ''approved'') (slang_terms db))))"

definition get_approved_terms :: "database \<Rightarrow> int \<Rightarrow> approved_entry list" where
  "get_approved_terms db limit = map (approved_dict db) (approved_select db limit)"

text \<open>\<open>row[1] or 'No definition'\<close>\<close>

definition or_no_definition :: "string option \<Rightarrow> string" where
  "or_no_definition d =
     (case d of None \<Rightarrow> ''No definition'' | Some s \<Rightarrow> if s = [] then ''No definition'' else s)"

record placeholder_entry =
  ph_term :: string
  ph_definition :: string
  ph_mentions :: nat

definition placeholder_dict :: "database \<Rightarrow> term_row \<Rightarrow> placeholder_entry" where
  "placeholder_dict db st =
     \<lparr>ph_term = st_term st, ph_definition = or_no_definition (st_definition st),
      ph_mentions = mention_count db (st_id st)\<rparr>"

definition placeholder_select :: "database \<Rightarrow> int \<Rightarrow> term_row list" where
  "placeholder_select db limit =
     sql_limit limit
       (sort_by (\<lambda>x y. mention_count db (st_id y) \<le> mention_count db (st_id x))
         (filter (\<lambda>st. case st_definition st of
                          None \<Rightarrow> True
                        | Some d \<Rightarrow>
                            d \<in> set [''Trending slang term'', ''Approved slang term'', ''''])
           (slang_terms db)))"

definition get_placeholder_terms :: "database \<Rightarrow> int \<Rightarrow> placeholder_entry list" where
  "get_placeholder_terms db limit = map (placeholder_dict db) (placeholder_select db limit)"

text \<open>Text comparison of the default \<open>BINARY\<close> collation.\<close>

fun str_le :: "string \<Rightarrow> string \<Rightarrow> bool" where
  "str_le [] ys = True"
| "str_le (x # xs) [] = False"
| "str_le (x # xs) (y # ys) =
     ((of_char x :: nat) < of_char y \<or> (x = y \<and> str_le xs ys))"

record low_value_entry =
  lv_term :: string
  lv_definition :: string
  lv_mentions :: nat
  lv_approval_status :: string

definition low_value_dict :: "database \<Rightarrow> term_row \<Rightarrow> low_value_entry" where
  "low_value_dict db st =
     \<lparr>lv_term = st_term st, lv_definition = or_no_definition (st_definition st),
      lv_mentions = mention_count db (st_id st),
      lv_approval_status = st_approval_status st\<rparr>"

definition low_value_select :: "database \<Rightarrow> int \<Rightarrow> term_row list" where
  "low_value_select db max_mentions =
     sort_by (\<lambda>x y. mention_count db (st_id x) < mention_count db (st_id y) \<or>
                     (mention_count db (st_id x) = mention_count db (st_id y) \<and>
                      str_le (st_term x) (st_term y)))
       (filter (\<lambda>st. int (mention_count db (st_id st)) \<le> max_mentions) (slang_terms db))"

definition get_low_value_terms :: "database \<Rightarrow> int \<Rightarrow> low_value_entry list" where
  "get_low_value_terms db max_mentions =
     map (low_value_dict db) (low_value_select db max_mentions)"

definition get_term_by_id :: "database \<Rightarrow> nat \<Rightarrow> term_row option" where
  "get_term_by_id db term_id = find (\<lambda>r. st_id r = term_id) (slang_terms db)"

section \<open>Concrete stores used in the examples\<close>

text \<open>A fresh store in which the term \<open>yeet\<close> was added and never mentioned.\<close>

definition db_yeet :: database where
  "db_yeet = snd (add_term 0 init_database ''yeet'' None ''general'')"

text \<open>A fresh store in which \<open>yeet\<close> was added with a definition that ends in blanks.\<close>

definition db_padded :: database where
  "db_padded = snd (add_term 0 init_database ''yeet'' (Some ''to throw    '') ''general'')"

text \<open>
  The store of the worked example: \<open>add_term("Drip ", "Fashionable clothing", "fashion")\<close>
  on a fresh store, then \<open>add_mention("drip", "reddit", "drip check", 5)\<close>.
\<close>

definition db_drip_term :: database where
  "db_drip_term = snd (add_term 0 init_database ''Drip '' (Some ''Fashionable clothing'') ''fashion'')"

definition db_drip :: database where
  "db_drip = snd (add_mention 1 2 db_drip_term ''drip'' ''reddit'' ''drip check'' 5)"

section \<open>Facts about the text helpers\<close>

lemma dropWhile_hd_id: "xs \<noteq> [] \<Longrightarrow> \<not> P (hd xs) \<Longrightarrow> dropWhile P xs = xs"
  by (cases xs) simp_all

lemma last_dropWhile: "dropWhile P xs \<noteq> [] \<Longrightarrow> last (dropWhile P xs) = last xs"
  by (induction xs) (auto split: if_splits)

lemma strip_Nil [simp]: "strip [] = []"
  by (simp add: strip_def)

lemma strip_id:
  "s \<noteq> [] \<Longrightarrow> \<not> is_space (hd s) \<Longrightarrow> \<not> is_space (last s) \<Longrightarrow> strip s = s"
  by (simp add: strip_def dropWhile_hd_id hd_rev)

lemma strip_ends:
  assumes "strip s \<noteq> []"
  shows "\<not> is_space (hd (strip s))" and "\<not> is_space (last (strip s))"
proof -
  let ?a = "dropWhile is_space s"
  let ?b = "dropWhile is_space (rev ?a)"
  from assms have b: "?b \<noteq> []" by (simp add: strip_def)
  have a: "?a \<noteq> []"
  proof
    assume "?a = []"
    then have "?b = []" by (simp only: rev.simps dropWhile.simps)
    with b show False by simp
  qed
  have "hd (strip s) = last ?b" using b by (simp add: strip_def hd_rev)
  also have "\<dots> = last (rev ?a)" using b by (rule last_dropWhile)
  also have "\<dots> = hd ?a" using a by (simp add: last_rev)
  finally show "\<not> is_space (hd (strip s))" using hd_dropWhile [OF a] by simp
  have "last (strip s) = hd ?b" using b by (simp add: strip_def last_rev)
  then show "\<not> is_space (last (strip s))" using hd_dropWhile [OF b] by simp
qed

lemma strip_strip: "strip (strip s) = strip s"
proof (cases "strip s = []")
  case True
  then show ?thesis by simp
next
  case False
  then show ?thesis by (simp add: strip_id strip_ends)
qed

lemma strip_space_Cons: "is_space c \<Longrightarrow> strip (c # s) = strip s"
  by (simp add: strip_def)

lemma strip_replicate: "\<not> is_space c \<Longrightarrow> strip (replicate n c) = replicate n c"
  by (cases n) (simp_all add: strip_id last_replicate del: replicate_Suc)

section \<open>Definition cleaning\<close>

lemma placeholder_len:
  "p \<in> set [''Trending slang term'', ''Approved slang term'', ''''] \<Longrightarrow> length p < 20"
  by auto

lemma clean_definition_literal:
  "clean_definition (Some no_definition_available) = no_definition_available"
  by (simp add: clean_definition_def no_definition_available_def strip_def is_space_def)

lemma clean_definition_long:
  assumes "300 < length (strip s)"
  shows "clean_definition (Some s) = take 297 (strip s) @ ''...''"
proof -
  from assms have "s \<noteq> []" by auto
  moreover have "strip s \<notin> set [''Trending slang term'', ''Approved slang term'', '''']"
    using assms placeholder_len [of "strip s"] by auto
  ultimately show ?thesis
    using assms by (simp add: clean_definition_def del: set_simps)
qed

lemma clean_definition_idem:
  "clean_definition (Some (clean_definition x)) = clean_definition x"
proof (cases x)
  case None
  then show ?thesis using clean_definition_literal by (simp add: clean_definition_def)
next
  case (Some s)
  let ?d = "strip s"
  let ?P = "[''Trending slang term'', ''Approved slang term'', '''']"
  consider (e) "s = [] \<or> ?d \<in> set ?P"
    | (long) "s \<noteq> []" "?d \<notin> set ?P" "length ?d > 300"
    | (short) "s \<noteq> []" "?d \<notin> set ?P" "\<not> length ?d > 300"
    by blast
  then show ?thesis
  proof cases
    case e
    then have "clean_definition x = no_definition_available"
      using Some by (auto simp: clean_definition_def)
    then show ?thesis using clean_definition_literal by simp
  next
    case long
    let ?r = "take 297 ?d @ ''...''"
    have r: "clean_definition x = ?r" using Some long(3) by (simp add: clean_definition_long)
    have dn: "?d \<noteq> []" using long by auto
    have len: "length ?r = 300" using long by simp
    have "hd ?r = hd ?d" using long by (cases ?d) auto
    then have h: "\<not> is_space (hd ?r)" using strip_ends(1) [OF dn] by simp
    have l: "\<not> is_space (last ?r)" by (simp add: is_space_def)
    have sr: "strip ?r = ?r" using h l by (intro strip_id) simp_all
    have np: "?r \<notin> set ?P" using len placeholder_len [of ?r] by auto
    show ?thesis unfolding r using sr np len by (simp add: clean_definition_def del: set_simps)
  next
    case short
    have r: "clean_definition x = ?d" using Some short by (simp add: clean_definition_def)
    have dn: "?d \<noteq> []" using short by auto
    show ?thesis unfolding r using short dn by (simp add: clean_definition_def strip_strip)
  qed
qed

text \<open>
  Claim C3 as stated fails: a definition of 301 characters, one leading blank and 300
  letters, is longer than 300 characters, yet \<open>_clean_definition\<close> returns its 300
  letters untruncated, not its first 297 characters and an ellipsis.
\<close>

theorem clean_definition_truncation_counterexample:
  "300 < length (CHR '' '' # replicate 300 CHR ''x'') \<and>
   clean_definition (Some (CHR '' '' # replicate 300 CHR ''x'')) = replicate 300 CHR ''x'' \<and>
   clean_definition (Some (CHR '' '' # replicate 300 CHR ''x''))
     \<noteq> take 297 (CHR '' '' # replicate 300 CHR ''x'') @ ''...''"
proof -
  have s: "strip (CHR '' '' # replicate 300 CHR ''x'') = replicate 300 CHR ''x''"
    by (simp add: strip_space_Cons strip_replicate is_space_def)
  have np: "replicate 300 CHR ''x'' \<notin> set [''Trending slang term'', ''Approved slang term'', '''']"
    using placeholder_len [of "replicate 300 CHR ''x''"] by auto
  have c: "clean_definition (Some (CHR '' '' # replicate 300 CHR ''x'')) = replicate 300 CHR ''x''"
    using np by (simp add: clean_definition_def s del: set_simps)
  have "hd (replicate 300 CHR ''x'') \<noteq> hd (take 297 (CHR '' '' # replicate 300 CHR ''x'') @ ''...'')"
    by (simp add: hd_replicate take_Cons')
  then have "replicate 300 CHR ''x'' \<noteq> take 297 (CHR '' '' # replicate 300 CHR ''x'') @ ''...''"
    by metis
  with c show ?thesis by simp
qed

text \<open>
  Claim C3, amended: \<open>_clean_definition\<close> is idempotent; it maps \<open>None\<close>, the empty
  string and each placeholder string to \<open>"No definition available"\<close>; and when the
  definition \<^emph>\<open>with surrounding whitespace removed\<close> is longer than 300 characters, the
  result is the first 297 characters of that trimmed text followed by \<open>"..."\<close>.
\<close>

theorem clean_definition_spec:
  "clean_definition (Some (clean_definition x)) = clean_definition x \<and>
   clean_definition None = ''No definition available'' \<and>
   clean_definition (Some '''') = ''No definition available'' \<and>
   clean_definition (Some ''Trending slang term'') = ''No definition available'' \<and>
   clean_definition (Some ''Approved slang term'') = ''No definition available'' \<and>
   (300 < length (strip s) \<longrightarrow>
      clean_definition (Some s) = take 297 (strip s) @ ''...'' \<and>
      length (clean_definition (Some s)) = 300)"
proof -
  have "strip ''Trending slang term'' = ''Trending slang term''"
    and "strip ''Approved slang term'' = ''Approved slang term''"
    by (simp_all add: strip_def is_space_def)
  then have "clean_definition None = ''No definition available''"
    and "clean_definition (Some '''') = ''No definition available''"
    and "clean_definition (Some ''Trending slang term'') = ''No definition available''"
    and "clean_definition (Some ''Approved slang term'') = ''No definition available''"
    by (simp_all add: clean_definition_def no_definition_available_def)
  moreover have "length (take 297 (strip s) @ ''...'') = 300" if "300 < length (strip s)"
    using that by simp
  ultimately show ?thesis
    using clean_definition_idem [of x] clean_definition_long [of s] by simp
qed

theorem clean_definition_spec_witness:
  "300 < length (strip (replicate 301 CHR ''x'')) \<and>
   clean_definition (Some (replicate 301 CHR ''x'')) = replicate 297 CHR ''x'' @ ''...''"
proof -
  have s: "strip (replicate 301 CHR ''x'') = replicate 301 CHR ''x''"
    by (simp add: strip_replicate is_space_def)
  have "300 < length (strip (replicate 301 CHR ''x''))"
    unfolding s by simp
  moreover have "take 297 (strip (replicate 301 CHR ''x'')) = replicate 297 CHR ''x''"
    unfolding s by simp
  ultimately show ?thesis
    using clean_definition_spec [of None "replicate 301 CHR ''x''"] by simp
qed

section \<open>Facts about sorting and limits\<close>

lemma set_insort_by: "set (insort_by before x ys) = insert x (set ys)"
  by (induction ys) auto

lemma set_sort_by: "set (sort_by before xs) = set xs"
  by (induction xs) (simp_all add: sort_by_def set_insort_by)

lemma length_insort_by: "length (insort_by before x ys) = Suc (length ys)"
  by (induction ys) auto

lemma length_sort_by: "length (sort_by before xs) = length xs"
  by (induction xs) (simp_all add: sort_by_def length_insort_by)

lemma set_sql_limit: "set (sql_limit n xs) \<subseteq> set xs"
  by (auto simp: sql_limit_def dest: in_set_takeD)

lemma sql_limit_all: "int (length xs) \<le> n \<Longrightarrow> sql_limit n xs = xs"
  by (simp add: sql_limit_def)

section \<open>Where the rows of the queries come from\<close>

lemma trending_select_sub:
  "st \<in> set (trending_select db limit status) \<Longrightarrow>
   st \<in> set (slang_terms db) \<and> 0 < mention_count db (st_id st) \<and>
   (status = ''all'' \<or> st_approval_status st = status)"
  unfolding trending_select_def
  by (drule subsetD [OF set_sql_limit]) (simp add: set_sort_by)

lemma approved_select_sub:
  "st \<in> set (approved_select db limit) \<Longrightarrow>
   st \<in> set (slang_terms db) \<and> 0 < mention_count db (st_id st) \<and>
   st_approval_status st = ''approved''"
  unfolding approved_select_def
  by (drule subsetD [OF set_sql_limit]) (simp add: set_sort_by)

lemma placeholder_select_sub:
  "st \<in> set (placeholder_select db limit) \<Longrightarrow> st \<in> set (slang_terms db)"
  unfolding placeholder_select_def
  by (drule subsetD [OF set_sql_limit]) (simp add: set_sort_by)

lemma set_low_value_select:
  "set (low_value_select db k) =
     {st \<in> set (slang_terms db). int (mention_count db (st_id st)) \<le> k}"
  by (simp add: low_value_select_def set_sort_by)

lemma unique_term:
  "db_constraints db \<Longrightarrow> x \<in> set (slang_terms db) \<Longrightarrow> y \<in> set (slang_terms db) \<Longrightarrow>
   st_term x = st_term y \<Longrightarrow> x = y"
  by (auto simp: db_constraints_def distinct_map dest: inj_onD)

lemma unique_id:
  "db_constraints db \<Longrightarrow> x \<in> set (slang_terms db) \<Longrightarrow> y \<in> set (slang_terms db) \<Longrightarrow>
   st_id x = st_id y \<Longrightarrow> x = y"
  by (auto simp: db_constraints_def distinct_map dest: inj_onD)

lemma dict_fields [simp]:
  "tr_term (trending_dict db st) = st_term st"
  "tr_id (trending_dict db st) = st_id st"
  "tr_approval_status (trending_dict db st) = st_approval_status st"
  "tr_rejection_reason (trending_dict db st) = st_rejection_reason st"
  "tr_mentions (trending_dict db st) = mention_count db (st_id st)"
  "tr_avg_engagement (trending_dict db st) = py_round1 (avg_engagement db (st_id st))"
  "ap_term (approved_dict db st) = st_term st"
  "ap_id (approved_dict db st) = st_id st"
  "ph_term (placeholder_dict db st) = st_term st"
  "lv_term (low_value_dict db st) = st_term st"
  by (simp_all add: trending_dict_def approved_dict_def placeholder_dict_def low_value_dict_def)

lemma trending_terms_source:
  assumes "name \<in> tr_term ` set (get_trending_terms db limit status)"
  obtains st where "st \<in> set (slang_terms db)" "st_term st = name"
    "0 < mention_count db (st_id st)"
proof -
  from assms obtain st where st: "st \<in> set (trending_select db limit status)" "st_term st = name"
    by (auto simp: get_trending_terms_def)
  from trending_select_sub [OF st(1)] st(2) that [of st] show thesis by simp
qed

lemma approved_terms_source:
  assumes "name \<in> ap_term ` set (get_approved_terms db limit)"
  obtains st where "st \<in> set (slang_terms db)" "st_term st = name"
    "0 < mention_count db (st_id st)"
proof -
  from assms obtain st where st: "st \<in> set (approved_select db limit)" "st_term st = name"
    by (auto simp: get_approved_terms_def)
  from approved_select_sub [OF st(1)] st(2) that [of st] show thesis by simp
qed

lemma placeholder_terms_source:
  assumes "name \<in> ph_term ` set (get_placeholder_terms db limit)"
  obtains st where "st \<in> set (slang_terms db)" "st_term st = name"
proof -
  from assms obtain st where st: "st \<in> set (placeholder_select db limit)" "st_term st = name"
    by (auto simp: get_placeholder_terms_def)
  from placeholder_select_sub [OF st(1)] st(2) that [of st] show thesis by simp
qed

lemma low_value_terms_set:
  "lv_term ` set (get_low_value_terms db k) =
     st_term ` {st \<in> set (slang_terms db). int (mention_count db (st_id st)) \<le> k}"
  by (simp add: get_low_value_terms_def set_low_value_select image_image)

section \<open>Terms without mentions\<close>

lemma norm_yeet: "strip (lower ''yeet'') = ''yeet''"
  by (simp add: lower_def lower_char_def strip_def is_space_def)

lemma db_yeet_eq:
  "db_yeet =
     \<lparr>slang_terms =
        [\<lparr>st_id = 1, st_term = ''yeet'', st_definition = None, st_category = ''general'',
          st_approval_status = ''pending'', st_approved_by = None, st_approved_at = None,
          st_rejection_reason = None, st_first_seen = 0\<rparr>],
      mentions = [], daily_trends = []\<rparr>"
  by (simp add: db_yeet_def add_term_def init_database_def next_rowid_def norm_yeet)

text \<open>
  Claim C1 as stated fails: in a fresh store where \<open>yeet\<close> was added and never mentioned,
  the term has zero mentions, and both \<open>get_low_value_terms(2)\<close> and
  \<open>get_placeholder_terms(200)\<close> list it.
\<close>

theorem zero_mentions_listed_counterexample:
  "mention_count db_yeet 1 = 0 \<and>
   map lv_term (get_low_value_terms db_yeet 2) = [''yeet''] \<and>
   map ph_term (get_placeholder_terms db_yeet 200) = [''yeet'']"
  by (simp add: db_yeet_eq mention_count_def get_low_value_terms_def low_value_select_def
      get_placeholder_terms_def placeholder_select_def sort_by_def sql_limit_def)

text \<open>
  Claim C1, amended: a stored term with zero recorded mentions never appears in the
  result of \<open>get_trending_terms\<close> or \<open>get_approved_terms\<close>, whatever its approval status
  or definition, limit and status filter. \<open>get_low_value_terms\<close> does not exclude such
  terms: it lists every one of them when its threshold is not negative.
\<close>

theorem zero_mentions_not_ranked:
  assumes "db_constraints db" and "t \<in> set (slang_terms db)"
    and "mention_count db (st_id t) = 0"
  shows "st_term t \<notin> tr_term ` set (get_trending_terms db limit status) \<and>
         st_term t \<notin> ap_term ` set (get_approved_terms db limit) \<and>
         (0 \<le> max_mentions \<longrightarrow> st_term t \<in> lv_term ` set (get_low_value_terms db max_mentions))"
proof (intro conjI impI)
  show "st_term t \<notin> tr_term ` set (get_trending_terms db limit status)"
  proof
    assume "st_term t \<in> tr_term ` set (get_trending_terms db limit status)"
    then obtain st where "st \<in> set (slang_terms db)" "st_term st = st_term t"
      "0 < mention_count db (st_id st)"
      by (rule trending_terms_source)
    with assms unique_term [of db st t] show False by simp
  qed
  show "st_term t \<notin> ap_term ` set (get_approved_terms db limit)"
  proof
    assume "st_term t \<in> ap_term ` set (get_approved_terms db limit)"
    then obtain st where "st \<in> set (slang_terms db)" "st_term st = st_term t"
      "0 < mention_count db (st_id st)"
      by (rule approved_terms_source)
    with assms unique_term [of db st t] show False by simp
  qed
  show "st_term t \<in> lv_term ` set (get_low_value_terms db max_mentions)" if "0 \<le> max_mentions"
    unfolding low_value_terms_set using assms that by (intro imageI) simp
qed

theorem zero_mentions_not_ranked_witness:
  "db_constraints db_yeet \<and> hd (slang_terms db_yeet) \<in> set (slang_terms db_yeet) \<and>
   mention_count db_yeet (st_id (hd (slang_terms db_yeet))) = 0 \<and>
   st_term (hd (slang_terms db_yeet)) = ''yeet'' \<and>
   ''yeet'' \<notin> tr_term ` set (get_trending_terms db_yeet 20 ''all'') \<and>
   ''yeet'' \<notin> ap_term ` set (get_approved_terms db_yeet 20) \<and>
   (0 \<le> (2::int) \<and> ''yeet'' \<in> lv_term ` set (get_low_value_terms db_yeet 2))"
proof -
  have h: "db_constraints db_yeet" "hd (slang_terms db_yeet) \<in> set (slang_terms db_yeet)"
    "mention_count db_yeet (st_id (hd (slang_terms db_yeet))) = 0"
    and n: "st_term (hd (slang_terms db_yeet)) = ''yeet''"
    by (simp_all add: db_yeet_eq db_constraints_def mention_count_def)
  show ?thesis
    using zero_mentions_not_ranked [OF h, of 20 "''all''" 2] h n by simp
qed

section \<open>Adding terms\<close>

lemma fold_max_ge: "a \<le> fold max xs (a::nat)"
proof (induction xs arbitrary: a)
  case Nil
  show ?case by simp
next
  case (Cons x xs)
  have "a \<le> max x a" by simp
  also have "\<dots> \<le> fold max xs (max x a)" by (rule Cons.IH)
  finally show ?case by simp
qed

lemma fold_max_upper: "x \<in> set xs \<Longrightarrow> x \<le> fold max xs (a::nat)"
proof (induction xs arbitrary: a)
  case Nil
  then show ?case by simp
next
  case (Cons y ys)
  show ?case
  proof (cases "x = y")
    case True
    have "x \<le> max y a" using True by simp
    also have "\<dots> \<le> fold max ys (max y a)" by (rule fold_max_ge)
    finally show ?thesis by simp
  next
    case False
    with Cons.prems have "x \<in> set ys" by simp
    then show ?thesis using Cons.IH by simp
  qed
qed

lemma next_rowid_fresh: "next_rowid ids \<notin> set ids"
proof
  assume "next_rowid ids \<in> set ids"
  then have "next_rowid ids \<le> fold max ids 0" by (rule fold_max_upper)
  then show False by (simp add: next_rowid_def)
qed

lemma find_unique:
  assumes "r \<in> set xs" and "P r" and u: "\<forall>x\<in>set xs. P x \<longrightarrow> x = r"
  shows "find P xs = Some r"
  using assms
proof (induction xs)
  case Nil
  then show ?case by simp
next
  case (Cons a xs)
  show ?case
  proof (cases "P a")
    case True
    have "a \<in> set (a # xs)" by simp
    with Cons.prems(3) True have "a = r" by blast
    with True show ?thesis by simp
  next
    case False
    with Cons.prems(1,2) have "r \<in> set xs" by auto
    moreover have "\<forall>x\<in>set xs. P x \<longrightarrow> x = r"
    proof (intro ballI impI)
      fix x assume "x \<in> set xs" "P x"
      then have "x \<in> set (a # xs)" by simp
      with Cons.prems(3) \<open>P x\<close> show "x = r" by blast
    qed
    ultimately have "find P xs = Some r" using Cons.prems(2) by (intro Cons.IH)
    with False show ?thesis by simp
  qed
qed

lemma find_term:
  assumes "db_constraints db" "r \<in> set (slang_terms db)" "st_term r = key"
  shows "find (\<lambda>x. st_term x = key) (slang_terms db) = Some r"
proof (rule find_unique)
  show "r \<in> set (slang_terms db)" and "st_term r = key" by fact+
  show "\<forall>x\<in>set (slang_terms db). st_term x = key \<longrightarrow> x = r"
    using assms unique_term [of db _ r] by simp
qed

lemma length_filter_unique:
  "distinct (map f xs) \<Longrightarrow> r \<in> set xs \<Longrightarrow> length (filter (\<lambda>x. f x = f r) xs) = 1"
proof (induction xs)
  case Nil
  then show ?case by simp
next
  case (Cons y ys)
  show ?case
  proof (cases "f y = f r")
    case True
    from Cons.prems have "f y \<notin> f ` set ys" by simp
    with True have "\<forall>x\<in>set ys. f x \<noteq> f r" by (metis imageI)
    then have "filter (\<lambda>x. f x = f r) ys = []" by (simp add: filter_empty_conv)
    with True show ?thesis by simp
  next
    case False
    with Cons.prems have r: "r \<in> set ys" by auto
    from Cons.prems have "distinct (map f ys)" by simp
    then have "length (filter (\<lambda>x. f x = f r) ys) = 1" using r by (rule Cons.IH)
    with False show ?thesis by simp
  qed
qed

lemma map_map_same: "(\<And>x. g (f x) = g x) \<Longrightarrow> map g (map f xs) = map g xs"
  by (induction xs) simp_all

lemma add_term_new:
  assumes "\<forall>x\<in>set (slang_terms db). st_term x \<noteq> strip (lower name)"
  shows "add_term now db name d cat =
     (Inr (next_rowid (map st_id (slang_terms db))),
      db\<lparr>slang_terms := slang_terms db @
        [\<lparr>st_id = next_rowid (map st_id (slang_terms db)), st_term = strip (lower name),
          st_definition = d, st_category = cat, st_approval_status = ''pending'',
          st_approved_by = None, st_approved_at = None, st_rejection_reason = None,
          st_first_seen = now\<rparr>]\<rparr>)"
  using assms by (simp add: add_term_def list_ex_iff Let_def)

lemma add_term_existing:
  assumes c: "db_constraints db" and r: "r \<in> set (slang_terms db)"
    and k: "st_term r = strip (lower name)"
  shows "add_term now db name d cat =
     (Inr (st_id r),
      db\<lparr>slang_terms :=
        map (\<lambda>x. if x = r
                 then x\<lparr>st_definition :=
                          if better_definition d (st_definition r) then d else st_definition r\<rparr>
                 else x)
          (slang_terms db)\<rparr>)"
proof -
  have ex: "list_ex (\<lambda>x. st_term x = strip (lower name)) (slang_terms db)"
    using r k by (auto simp: list_ex_iff)
  have f: "find (\<lambda>x. st_term x = strip (lower name)) (slang_terms db) = Some r"
    using c r k by (rule find_term)
  have m: "map (\<lambda>x. if st_id x = st_id r then x\<lparr>st_definition := d\<rparr> else x) (slang_terms db) =
           map (\<lambda>x. if x = r then x\<lparr>st_definition := d\<rparr> else x) (slang_terms db)"
    using unique_id [OF c _ r] by (intro map_cong) auto
  have i: "map (\<lambda>x. if x = r then x\<lparr>st_definition := st_definition r\<rparr> else x) (slang_terms db) =
           slang_terms db"
    by (intro map_idI) simp
  show ?thesis
  proof (cases "better_definition d (st_definition r)")
    case True
    then show ?thesis using ex f by (simp add: add_term_def Let_def m)
  next
    case False
    then show ?thesis using ex f by (simp add: add_term_def Let_def i)
  qed
qed

lemma add_term_result:
  assumes c: "db_constraints db"
  obtains r where "r \<in> set (slang_terms (snd (add_term now db name d cat)))"
    "st_term r = strip (lower name)" "fst (add_term now db name d cat) = Inr (st_id r)"
    "db_constraints (snd (add_term now db name d cat))"
proof (cases "\<forall>x\<in>set (slang_terms db). st_term x \<noteq> strip (lower name)")
  case True
  let ?i = "next_rowid (map st_id (slang_terms db))"
  let ?r = "\<lparr>st_id = ?i, st_term = strip (lower name),
          st_definition = d, st_category = cat, st_approval_status = ''pending'',
          st_approved_by = None, st_approved_at = None, st_rejection_reason = None,
          st_first_seen = now\<rparr>"
  have e: "add_term now db name d cat = (Inr ?i, db\<lparr>slang_terms := slang_terms db @ [?r]\<rparr>)"
    using True by (rule add_term_new)
  have "?i \<notin> set (map st_id (slang_terms db))" by (rule next_rowid_fresh)
  moreover have "strip (lower name) \<notin> set (map st_term (slang_terms db))"
    using True by auto
  ultimately have "db_constraints (db\<lparr>slang_terms := slang_terms db @ [?r]\<rparr>)"
    using c by (simp add: db_constraints_def)
  then show thesis using that [of ?r] by (simp add: e)
next
  case False
  then obtain r where r: "r \<in> set (slang_terms db)" "st_term r = strip (lower name)" by auto
  let ?v = "if better_definition d (st_definition r) then d else st_definition r"
  let ?f = "\<lambda>x. if x = r then x\<lparr>st_definition := ?v\<rparr> else x"
  have e: "add_term now db name d cat = (Inr (st_id r), db\<lparr>slang_terms := map ?f (slang_terms db)\<rparr>)"
    using c r by (rule add_term_existing)
  have "map st_id (map ?f (slang_terms db)) = map st_id (slang_terms db)"
    and "map st_term (map ?f (slang_terms db)) = map st_term (slang_terms db)"
    by (rule map_map_same, simp)+
  then have "db_constraints (db\<lparr>slang_terms := map ?f (slang_terms db)\<rparr>)"
    using c by (simp add: db_constraints_def del: map_map)
  moreover have "?f r \<in> ?f ` set (slang_terms db)" using r(1) by (rule imageI)
  then have "r\<lparr>st_definition := ?v\<rparr> \<in> set (map ?f (slang_terms db))" by (simp only: set_map if_True refl)
  ultimately show thesis using that [of "r\<lparr>st_definition := ?v\<rparr>"] r(2) by (simp add: e)
qed


lemma better_definition_iff:
  "better_definition d cur \<longleftrightarrow>
     (\<exists>new. d = Some new \<and> strip new \<noteq> [] \<and>
        (cur = None \<or> cur = Some '''' \<or> cur = Some ''Trending slang term'' \<or>
         cur = Some ''Approved slang term'' \<or>
         (\<exists>old. cur = Some old \<and> length (strip old) < length (strip new))))"
proof (cases d)
  case None
  then show ?thesis by (simp add: better_definition_def)
next
  case d: (Some new)
  have ne: "strip new \<noteq> [] \<Longrightarrow> new \<noteq> []" by auto
  show ?thesis
  proof (cases cur)
    case None
    with d ne show ?thesis by (auto simp: better_definition_def)
  next
    case (Some old)
    have "better_definition d cur \<longleftrightarrow>
        new \<noteq> [] \<and> strip new \<noteq> [] \<and>
        (old = [] \<or> old = ''Trending slang term'' \<or> old = ''Approved slang term'' \<or>
         length (strip old) < length (strip new))"
      unfolding better_definition_def d Some by (simp only: option.case list.set insert_iff empty_iff) simp
    with ne d Some show ?thesis by auto
  qed
qed

lemma norm_yeet_blank: "strip ''   '' = []" "strip ''to throw    '' = ''to throw''"
  "strip ''to throw!'' = ''to throw!''"
  by (simp_all add: strip_def is_space_def)

lemma db_padded_eq:
  "db_padded =
     \<lparr>slang_terms =
        [\<lparr>st_id = 1, st_term = ''yeet'', st_definition = Some ''to throw    '',
          st_category = ''general'', st_approval_status = ''pending'', st_approved_by = None,
          st_approved_at = None, st_rejection_reason = None, st_first_seen = 0\<rparr>],
      mentions = [], daily_trends = []\<rparr>"
  by (simp add: db_padded_def add_term_def init_database_def next_rowid_def norm_yeet)

text \<open>
  Claim C2 as stated fails in two places. In a store where \<open>yeet\<close> has no definition,
  \<open>add_term("yeet", "   ")\<close> brings a non-empty new definition while no current one
  exists, yet the stored definition stays absent. In a store where \<open>yeet\<close> has the
  12-character definition \<open>"to throw    "\<close>, \<open>add_term("yeet", "to throw!")\<close> overwrites
  it with a 9-character one.
\<close>

theorem add_term_definition_counterexample:
  "''   '' \<noteq> [] \<and> map st_definition (slang_terms db_yeet) = [None] \<and>
   map st_definition (slang_terms (snd (add_term 1 db_yeet ''yeet'' (Some ''   '') ''general'')))
     = [None] \<and>
   map st_definition (slang_terms db_padded) = [Some ''to throw    ''] \<and>
   length ''to throw!'' < length ''to throw    '' \<and>
   map st_definition
     (slang_terms (snd (add_term 1 db_padded ''yeet'' (Some ''to throw!'') ''general'')))
     = [Some ''to throw!'']"
  by (simp add: db_yeet_eq db_padded_eq add_term_def norm_yeet better_definition_def
      norm_yeet_blank)

text \<open>
  Claim C2, amended: \<open>add_term\<close> is idempotent on the normalised (lowercased, trimmed)
  key: two calls with the same name return the same id and leave exactly one row with
  that key. On an existing row it changes nothing but the definition (so never the
  approval status), and it replaces the stored definition if and only if the new one
  is non-empty \<^emph>\<open>after trimming\<close> and either no current definition exists (absent or
  empty), the current one is \<open>"Trending slang term"\<close> or \<open>"Approved slang term"\<close>, or the
  new one is strictly longer \<^emph>\<open>with both trimmed\<close>.
\<close>

theorem add_term_upsert:
  assumes "db_constraints db"
  shows
    "(\<exists>i. fst (add_term now db name d cat) = Inr i \<and>
          fst (add_term now' (snd (add_term now db name d cat)) name d' cat') = Inr i) \<and>
     length (filter (\<lambda>x. st_term x = strip (lower name))
       (slang_terms (snd (add_term now' (snd (add_term now db name d cat)) name d' cat')))) = 1 \<and>
     (\<forall>r\<in>set (slang_terms db). st_term r = strip (lower name) \<longrightarrow>
        add_term now db name d cat =
          (Inr (st_id r),
           db\<lparr>slang_terms :=
             map (\<lambda>x. if x = r
                      then x\<lparr>st_definition :=
                               if (\<exists>new. d = Some new \<and> strip new \<noteq> [] \<and>
                                     (st_definition r = None \<or> st_definition r = Some '''' \<or>
                                      st_definition r = Some ''Trending slang term'' \<or>
                                      st_definition r = Some ''Approved slang term'' \<or>
                                      (\<exists>old. st_definition r = Some old \<and>
                                         length (strip old) < length (strip new))))
                               then d else st_definition r\<rparr>
                      else x)
               (slang_terms db)\<rparr>))"
proof (intro conjI ballI impI)
  let ?db1 = "snd (add_term now db name d cat)"
  let ?db2 = "snd (add_term now' ?db1 name d' cat')"
  obtain r where r: "r \<in> set (slang_terms ?db1)" "st_term r = strip (lower name)"
    "fst (add_term now db name d cat) = Inr (st_id r)" and c1: "db_constraints ?db1"
    using assms by (rule add_term_result)
  let ?f = "\<lambda>x. if x = r
                 then x\<lparr>st_definition :=
                          if better_definition d' (st_definition r) then d' else st_definition r\<rparr>
                 else x"
  have e2: "add_term now' ?db1 name d' cat' =
     (Inr (st_id r), ?db1\<lparr>slang_terms := map ?f (slang_terms ?db1)\<rparr>)"
    using c1 r(1,2) by (rule add_term_existing)
  show "\<exists>i. fst (add_term now db name d cat) = Inr i \<and> fst (add_term now' ?db1 name d' cat') = Inr i"
    using r(3) e2 by simp
  have t: "st_term (?f x) = st_term x" for x by simp
  have "filter (\<lambda>x. st_term x = st_term r) (map ?f (slang_terms ?db1)) =
        map ?f (filter (\<lambda>x. st_term x = st_term r) (slang_terms ?db1))"
    unfolding filter_map comp_def t ..
  moreover have "length (filter (\<lambda>x. st_term x = st_term r) (slang_terms ?db1)) = 1"
    using c1 r(1) by (intro length_filter_unique) (simp add: db_constraints_def)
  ultimately show "length (filter (\<lambda>x. st_term x = strip (lower name)) (slang_terms ?db2)) = 1"
    unfolding e2 r(2) [symmetric] by simp
next
  fix r assume "r \<in> set (slang_terms db)" "st_term r = strip (lower name)"
  with assms show "add_term now db name d cat =
          (Inr (st_id r),
           db\<lparr>slang_terms :=
             map (\<lambda>x. if x = r
                      then x\<lparr>st_definition :=
                               if (\<exists>new. d = Some new \<and> strip new \<noteq> [] \<and>
                                     (st_definition r = None \<or> st_definition r = Some '''' \<or>
                                      st_definition r = Some ''Trending slang term'' \<or>
                                      st_definition r = Some ''Approved slang term'' \<or>
                                      (\<exists>old. st_definition r = Some old \<and>
                                         length (strip old) < length (strip new))))
                               then d else st_definition r\<rparr>
                      else x)
               (slang_terms db)\<rparr>)"
    unfolding better_definition_iff [symmetric] by (rule add_term_existing)
qed

theorem add_term_upsert_witness:
  "db_constraints db_yeet \<and>
   hd (slang_terms db_yeet) \<in> set (slang_terms db_yeet) \<and>
   st_term (hd (slang_terms db_yeet)) = strip (lower ''Yeet '') \<and>
   fst (add_term 1 db_yeet ''Yeet '' (Some ''to throw'') ''slang'') = Inr 1 \<and>
   map st_definition (slang_terms (snd (add_term 1 db_yeet ''Yeet '' (Some ''to throw'') ''slang'')))
     = [Some ''to throw''] \<and>
   map st_approval_status
     (slang_terms (snd (add_term 1 db_yeet ''Yeet '' (Some ''to throw'') ''slang'')))
     = [''pending''] \<and>
   length (filter (\<lambda>x. st_term x = strip (lower ''Yeet ''))
     (slang_terms (snd (add_term 2 (snd (add_term 1 db_yeet ''Yeet '' (Some ''to throw'') ''slang''))
        ''Yeet '' None ''x'')))) = 1"
proof -
  have c: "db_constraints db_yeet"
    by (simp add: db_yeet_eq db_constraints_def)
  have k: "strip (lower ''Yeet '') = ''yeet''"
    by (simp add: lower_def lower_char_def strip_def is_space_def)
  have s: "strip ''to throw'' = ''to throw''"
    by (simp add: strip_def is_space_def)
  have r: "hd (slang_terms db_yeet) \<in> set (slang_terms db_yeet)"
    "st_term (hd (slang_terms db_yeet)) = strip (lower ''Yeet '')"
    by (simp_all add: db_yeet_eq k)
  note t = add_term_upsert [OF c, of 1 "''Yeet ''" "Some ''to throw''" "''slang''" 2 None "''x''"]
  note a = t [THEN conjunct2, THEN conjunct1]
  from t r have "add_term 1 db_yeet ''Yeet '' (Some ''to throw'') ''slang'' =
    (Inr 1, db_yeet\<lparr>slang_terms :=
        [(hd (slang_terms db_yeet))\<lparr>st_definition := Some ''to throw''\<rparr>]\<rparr>)"
    by (simp add: db_yeet_eq s)
  then have f: "fst (add_term 1 db_yeet ''Yeet '' (Some ''to throw'') ''slang'') = Inr 1"
    "map st_definition
          (slang_terms (snd (add_term 1 db_yeet ''Yeet '' (Some ''to throw'') ''slang'')))
         = [Some ''to throw'']"
    "map st_approval_status
          (slang_terms (snd (add_term 1 db_yeet ''Yeet '' (Some ''to throw'') ''slang'')))
         = [''pending'']"
    by (simp_all add: db_yeet_eq)
  show ?thesis by (intro conjI c r f a)
qed

section \<open>Approval workflow\<close>

lemma approve_term_unknown:
  assumes "\<forall>r\<in>set (slang_terms db). st_term r \<noteq> strip (lower t)"
  shows "approve_term now db t actor = (False, db)"
proof -
  have "map (\<lambda>r. if st_term r = strip (lower t)
                  then r\<lparr>st_approval_status := ''approved'', st_approved_by := Some actor,
                         st_approved_at := Some now\<rparr>
                  else r) (slang_terms db) = slang_terms db"
    using assms by (intro map_idI) simp
  then show ?thesis using assms by (simp add: approve_term_def Let_def list_ex_iff)
qed

lemma reject_term_unknown:
  assumes "\<forall>r\<in>set (slang_terms db). st_term r \<noteq> strip (lower t)"
  shows "reject_term now db t reason actor = (False, db)"
proof -
  have "map (\<lambda>r. if st_term r = strip (lower t)
                  then r\<lparr>st_approval_status := ''rejected'', st_rejection_reason := Some reason,
                         st_approved_by := Some actor, st_approved_at := Some now\<rparr>
                  else r) (slang_terms db) = slang_terms db"
    using assms by (intro map_idI) simp
  then show ?thesis using assms by (simp add: reject_term_def Let_def list_ex_iff)
qed

lemma approve_term_fst:
  "fst (approve_term now db t actor) \<longleftrightarrow> (\<exists>r\<in>set (slang_terms db). st_term r = strip (lower t))"
  by (simp add: approve_term_def Let_def list_ex_iff)

lemma reject_term_fst:
  "fst (reject_term now db t reason actor) \<longleftrightarrow>
     (\<exists>r\<in>set (slang_terms db). st_term r = strip (lower t))"
  by (simp add: reject_term_def Let_def list_ex_iff)

lemma approve_term_rows:
  "slang_terms (snd (approve_term now db t actor)) =
     map (\<lambda>r. if st_term r = strip (lower t)
              then r\<lparr>st_approval_status := ''approved'', st_approved_by := Some actor,
                     st_approved_at := Some now\<rparr>
              else r) (slang_terms db)"
  "mentions (snd (approve_term now db t actor)) = mentions db"
  "daily_trends (snd (approve_term now db t actor)) = daily_trends db"
  by (simp_all add: approve_term_def Let_def)

lemma reject_term_rows:
  "slang_terms (snd (reject_term now db t reason actor)) =
     map (\<lambda>r. if st_term r = strip (lower t)
              then r\<lparr>st_approval_status := ''rejected'', st_rejection_reason := Some reason,
                     st_approved_by := Some actor, st_approved_at := Some now\<rparr>
              else r) (slang_terms db)"
  "mentions (snd (reject_term now db t reason actor)) = mentions db"
  "daily_trends (snd (reject_term now db t reason actor)) = daily_trends db"
  by (simp_all add: reject_term_def Let_def)

text \<open>
  Claim C4: \<open>approve_term\<close> and \<open>reject_term\<close> return true exactly when a row has the
  normalised term name; for an unknown term they return false and leave the store as it
  was. No prior state blocks a transition: whatever the row held before, approval sets
  status \<open>approved\<close>, actor and timestamp, and rejection sets status \<open>rejected\<close>, reason,
  actor and timestamp; every other row is untouched. So a rejected term can be approved
  afterwards and an approved one rejected, and applying a status again overwrites actor
  and timestamp (and the reason, for rejection).
\<close>

theorem approval_transitions:
  "(fst (approve_term now db t actor) \<longleftrightarrow>
      (\<exists>r\<in>set (slang_terms db). st_term r = strip (lower t))) \<and>
   (fst (reject_term now db t reason actor) \<longleftrightarrow>
      (\<exists>r\<in>set (slang_terms db). st_term r = strip (lower t))) \<and>
   ((\<forall>r\<in>set (slang_terms db). st_term r \<noteq> strip (lower t)) \<longrightarrow>
      approve_term now db t actor = (False, db) \<and>
      reject_term now db t reason actor = (False, db)) \<and>
   length (slang_terms (snd (approve_term now db t actor))) = length (slang_terms db) \<and>
   length (slang_terms (snd (reject_term now db t reason actor))) = length (slang_terms db) \<and>
   (\<forall>i<length (slang_terms db).
      slang_terms (snd (approve_term now db t actor)) ! i =
        (if st_term (slang_terms db ! i) = strip (lower t)
         then (slang_terms db ! i)\<lparr>st_approval_status := ''approved'',
                st_approved_by := Some actor, st_approved_at := Some now\<rparr>
         else slang_terms db ! i) \<and>
      slang_terms (snd (reject_term now db t reason actor)) ! i =
        (if st_term (slang_terms db ! i) = strip (lower t)
         then (slang_terms db ! i)\<lparr>st_approval_status := ''rejected'',
                st_rejection_reason := Some reason,
                st_approved_by := Some actor, st_approved_at := Some now\<rparr>
         else slang_terms db ! i) \<and>
      slang_terms (snd (approve_term now' (snd (reject_term now db t reason actor)) t actor')) ! i =
        (if st_term (slang_terms db ! i) = strip (lower t)
         then (slang_terms db ! i)\<lparr>st_approval_status := ''approved'',
                st_rejection_reason := Some reason,
                st_approved_by := Some actor', st_approved_at := Some now'\<rparr>
         else slang_terms db ! i) \<and>
      slang_terms (snd (reject_term now' (snd (approve_term now db t actor)) t reason actor')) ! i =
        (if st_term (slang_terms db ! i) = strip (lower t)
         then (slang_terms db ! i)\<lparr>st_approval_status := ''rejected'',
                st_rejection_reason := Some reason,
                st_approved_by := Some actor', st_approved_at := Some now'\<rparr>
         else slang_terms db ! i) \<and>
      slang_terms (snd (approve_term now' (snd (approve_term now db t actor)) t actor')) ! i =
        slang_terms (snd (approve_term now' db t actor')) ! i \<and>
      slang_terms (snd (reject_term now' (snd (reject_term now db t reason actor)) t reason' actor')) ! i =
        slang_terms (snd (reject_term now' db t reason' actor')) ! i)"
proof (intro conjI allI impI)
  show "fst (approve_term now db t actor) \<longleftrightarrow>
      (\<exists>r\<in>set (slang_terms db). st_term r = strip (lower t))"
    by (rule approve_term_fst)
  show "fst (reject_term now db t reason actor) \<longleftrightarrow>
      (\<exists>r\<in>set (slang_terms db). st_term r = strip (lower t))"
    by (rule reject_term_fst)
  show "approve_term now db t actor = (False, db)"
    if "\<forall>r\<in>set (slang_terms db). st_term r \<noteq> strip (lower t)"
    using that by (rule approve_term_unknown)
  show "reject_term now db t reason actor = (False, db)"
    if "\<forall>r\<in>set (slang_terms db). st_term r \<noteq> strip (lower t)"
    using that by (rule reject_term_unknown)
  show "length (slang_terms (snd (approve_term now db t actor))) = length (slang_terms db)"
    by (simp add: approve_term_rows)
  show "length (slang_terms (snd (reject_term now db t reason actor))) = length (slang_terms db)"
    by (simp add: reject_term_rows)
next
  fix i assume i: "i < length (slang_terms db)"
  show "slang_terms (snd (approve_term now db t actor)) ! i =
        (if st_term (slang_terms db ! i) = strip (lower t)
         then (slang_terms db ! i)\<lparr>st_approval_status := ''approved'',
                st_approved_by := Some actor, st_approved_at := Some now\<rparr>
         else slang_terms db ! i)"
    using i by (simp add: approve_term_rows)
  show "slang_terms (snd (reject_term now db t reason actor)) ! i =
        (if st_term (slang_terms db ! i) = strip (lower t)
         then (slang_terms db ! i)\<lparr>st_approval_status := ''rejected'',
                st_rejection_reason := Some reason,
                st_approved_by := Some actor, st_approved_at := Some now\<rparr>
         else slang_terms db ! i)"
    using i by (simp add: reject_term_rows)
  show "slang_terms (snd (approve_term now' (snd (reject_term now db t reason actor)) t actor')) ! i =
        (if st_term (slang_terms db ! i) = strip (lower t)
         then (slang_terms db ! i)\<lparr>st_approval_status := ''approved'',
                st_rejection_reason := Some reason,
                st_approved_by := Some actor', st_approved_at := Some now'\<rparr>
         else slang_terms db ! i)"
    using i by (simp add: approve_term_rows reject_term_rows)
  show "slang_terms (snd (reject_term now' (snd (approve_term now db t actor)) t reason actor')) ! i =
        (if st_term (slang_terms db ! i) = strip (lower t)
         then (slang_terms db ! i)\<lparr>st_approval_status := ''rejected'',
                st_rejection_reason := Some reason,
                st_approved_by := Some actor', st_approved_at := Some now'\<rparr>
         else slang_terms db ! i)"
    using i by (simp add: approve_term_rows reject_term_rows)
  show "slang_terms (snd (approve_term now' (snd (approve_term now db t actor)) t actor')) ! i =
        slang_terms (snd (approve_term now' db t actor')) ! i"
    using i by (simp add: approve_term_rows)
  show "slang_terms (snd (reject_term now' (snd (reject_term now db t reason actor)) t reason' actor')) ! i =
        slang_terms (snd (reject_term now' db t reason' actor')) ! i"
    using i by (simp add: reject_term_rows)
qed

theorem approval_transitions_witness:
  "strip (lower ''nope'') \<notin> set (map st_term (slang_terms db_yeet)) \<and>
   approve_term 5 db_yeet ''nope'' ''admin'' = (False, db_yeet) \<and>
   reject_term 5 db_yeet ''nope'' ''spam'' ''admin'' = (False, db_yeet) \<and>
   0 < length (slang_terms db_yeet) \<and>
   st_term (slang_terms db_yeet ! 0) = strip (lower ''Yeet'') \<and>
   fst (approve_term 5 db_yeet ''Yeet'' ''admin'') \<and>
   slang_terms
     (snd (approve_term 9 (snd (reject_term 5 db_yeet ''Yeet'' ''spam'' ''admin'')) ''Yeet'' ''root'')) ! 0
   = (slang_terms db_yeet ! 0)\<lparr>st_approval_status := ''approved'',
        st_rejection_reason := Some ''spam'', st_approved_by := Some ''root'',
        st_approved_at := Some 9\<rparr>"
proof -
  have k: "strip (lower ''nope'') = ''nope''" "strip (lower ''Yeet'') = ''yeet''"
    by (simp_all add: lower_def lower_char_def strip_def is_space_def)
  have n: "strip (lower ''nope'') \<notin> set (map st_term (slang_terms db_yeet))"
    and l: "0 < length (slang_terms db_yeet)"
    and y: "st_term (slang_terms db_yeet ! 0) = strip (lower ''Yeet'')"
    by (simp_all add: db_yeet_eq k)
  have h: "\<forall>r\<in>set (slang_terms db_yeet). st_term r \<noteq> strip (lower ''nope'')"
    by (simp add: db_yeet_eq k)
  note u = approval_transitions [where db = db_yeet and t = "''nope''" and now = 5
      and actor = "''admin''" and reason = "''spam''"]
  note v = approval_transitions [where db = db_yeet and t = "''Yeet''" and now = 5
      and actor = "''admin''" and reason = "''spam''" and now' = 9 and actor' = "''root''"]
  note u3 = u [THEN conjunct2, THEN conjunct2, THEN conjunct1, THEN mp, OF h]
  have e: "\<exists>r\<in>set (slang_terms db_yeet). st_term r = strip (lower ''Yeet'')"
    using l y by (intro bexI [of _ "slang_terms db_yeet ! 0"] nth_mem)
  have a: "fst (approve_term 5 db_yeet ''Yeet'' ''admin'')"
    using v [THEN conjunct1] e by (rule iffD2)
  note w = v [THEN conjunct2, THEN conjunct2, THEN conjunct2, THEN conjunct2, THEN conjunct2,
      THEN spec, THEN mp, OF l]
  from w y have s: "slang_terms
     (snd (approve_term 9 (snd (reject_term 5 db_yeet ''Yeet'' ''spam'' ''admin'')) ''Yeet'' ''root'')) ! 0
   = (slang_terms db_yeet ! 0)\<lparr>st_approval_status := ''approved'',
        st_rejection_reason := Some ''spam'', st_approved_by := Some ''root'',
        st_approved_at := Some 9\<rparr>"
    by simp
  show ?thesis
    by (intro conjI n u3 [THEN conjunct1] u3 [THEN conjunct2] l y a s)
qed

section \<open>A rejection reason survives a later approval\<close>

lemma mention_count_same: "mentions db' = mentions db \<Longrightarrow> mention_count db' = mention_count db"
  by (simp add: mention_count_def fun_eq_iff)

lemma trending_select_all:
  assumes "int (length (slang_terms db)) \<le> limit"
  shows "set (trending_select db limit ''all'') =
           {st \<in> set (slang_terms db). 0 < mention_count db (st_id st)}"
proof -
  let ?rows = "filter (\<lambda>st. 0 < mention_count db (st_id st))
                 (filter (\<lambda>st. ''all'' = ''all'' \<or> st_approval_status st = ''all'')
                   (slang_terms db))"
  have "length ?rows \<le> length (slang_terms db)"
    by (rule order_trans [OF length_filter_le length_filter_le])
  with assms have "int (length (sort_by (trending_order db) ?rows)) \<le> limit"
    by (simp only: length_sort_by)
  then have "sql_limit limit (sort_by (trending_order db) ?rows) = sort_by (trending_order db) ?rows"
    by (rule sql_limit_all)
  then have "set (trending_select db limit ''all'') = set ?rows"
    unfolding trending_select_def by (simp only: set_sort_by)
  then show ?thesis by simp
qed

text \<open>
  Claim C10: \<open>approve_term\<close> writes status, actor and timestamp and leaves every
  \<open>rejection_reason\<close> as it was. So when a stored, mentioned term is rejected with a
  reason and approved afterwards, \<open>get_trending_terms\<close> (with a limit that covers the
  table) returns its row with status \<open>approved\<close> and still the old rejection reason.
\<close>

theorem approve_keeps_rejection_reason:
  "map st_rejection_reason (slang_terms (snd (approve_term now db t actor))) =
     map st_rejection_reason (slang_terms db) \<and>
   (r \<in> set (slang_terms db) \<and> st_term r = strip (lower t) \<and>
    0 < mention_count db (st_id r) \<and> int (length (slang_terms db)) \<le> limit \<longrightarrow>
      (let db2 = snd (approve_term now2 (snd (reject_term now1 db t reason actor1)) t actor2);
           e = trending_dict db2
                 (r\<lparr>st_approval_status := ''approved'', st_rejection_reason := Some reason,
                    st_approved_by := Some actor2, st_approved_at := Some now2\<rparr>)
       in e \<in> set (get_trending_terms db2 limit ''all'') \<and> tr_term e = st_term r \<and>
          tr_approval_status e = ''approved'' \<and> tr_rejection_reason e = Some reason))"
proof (intro conjI impI)
  show "map st_rejection_reason (slang_terms (snd (approve_term now db t actor))) =
     map st_rejection_reason (slang_terms db)"
    unfolding approve_term_rows by (rule map_map_same) simp
next
  assume a: "r \<in> set (slang_terms db) \<and> st_term r = strip (lower t) \<and>
    0 < mention_count db (st_id r) \<and> int (length (slang_terms db)) \<le> limit"
  define db2 where "db2 = snd (approve_term now2 (snd (reject_term now1 db t reason actor1)) t actor2)"
  define r' where "r' = r\<lparr>st_approval_status := ''approved'', st_rejection_reason := Some reason,
                    st_approved_by := Some actor2, st_approved_at := Some now2\<rparr>"
  let ?g = "\<lambda>x. if st_term x = strip (lower t)
                 then x\<lparr>st_approval_status := ''approved'', st_rejection_reason := Some reason,
                        st_approved_by := Some actor2, st_approved_at := Some now2\<rparr>
                 else x"
  have rows: "slang_terms db2 = map ?g (slang_terms db)"
    unfolding db2_def approve_term_rows reject_term_rows by simp
  have m: "mentions db2 = mentions db"
    unfolding db2_def approve_term_rows reject_term_rows ..
  have "?g r \<in> ?g ` set (slang_terms db)" using a by (intro imageI) simp
  then have in2: "r' \<in> set (slang_terms db2)" using a by (simp add: rows r'_def)
  have cnt: "0 < mention_count db2 (st_id r')"
    using a by (simp add: mention_count_same [OF m] r'_def)
  have "int (length (slang_terms db2)) \<le> limit" using a by (simp add: rows)
  then have "set (trending_select db2 limit ''all'') =
           {st \<in> set (slang_terms db2). 0 < mention_count db2 (st_id st)}"
    by (rule trending_select_all)
  with in2 cnt have "r' \<in> set (trending_select db2 limit ''all'')" by simp
  then have "trending_dict db2 r' \<in> set (get_trending_terms db2 limit ''all'')"
    unfolding get_trending_terms_def set_map by (rule imageI)
  moreover have "tr_term (trending_dict db2 r') = st_term r"
    "tr_approval_status (trending_dict db2 r') = ''approved''"
    "tr_rejection_reason (trending_dict db2 r') = Some reason"
    by (simp_all add: r'_def)
  ultimately show "let db2 = snd (approve_term now2 (snd (reject_term now1 db t reason actor1)) t actor2);
           e = trending_dict db2
                 (r\<lparr>st_approval_status := ''approved'', st_rejection_reason := Some reason,
                    st_approved_by := Some actor2, st_approved_at := Some now2\<rparr>)
       in e \<in> set (get_trending_terms db2 limit ''all'') \<and> tr_term e = st_term r \<and>
          tr_approval_status e = ''approved'' \<and> tr_rejection_reason e = Some reason"
    unfolding Let_def db2_def [symmetric] r'_def [symmetric] by (intro conjI)
qed

lemma norm_drip: "strip (lower ''Drip '') = ''drip''" "strip (lower ''drip'') = ''drip''"
  "strip (lower ''Drip'') = ''drip''"
  by (simp_all add: lower_def lower_char_def strip_def is_space_def)

lemma db_drip_term_eq:
  "db_drip_term =
     \<lparr>slang_terms =
        [\<lparr>st_id = 1, st_term = ''drip'', st_definition = Some ''Fashionable clothing'',
          st_category = ''fashion'', st_approval_status = ''pending'', st_approved_by = None,
          st_approved_at = None, st_rejection_reason = None, st_first_seen = 0\<rparr>],
      mentions = [], daily_trends = []\<rparr>"
  by (simp add: db_drip_term_def add_term_def init_database_def next_rowid_def norm_drip)

lemma db_drip_eq:
  "db_drip =
     \<lparr>slang_terms =
        [\<lparr>st_id = 1, st_term = ''drip'', st_definition = Some ''Fashionable clothing'',
          st_category = ''fashion'', st_approval_status = ''pending'', st_approved_by = None,
          st_approved_at = None, st_rejection_reason = None, st_first_seen = 0\<rparr>],
      mentions =
        [\<lparr>m_id = 1, m_term_id = 1, m_platform = ''reddit'', m_content = ''drip check'',
          m_engagement_score = 5, m_detected_at = 2\<rparr>],
      daily_trends = []\<rparr>"
  by (simp add: db_drip_def add_mention_def db_drip_term_eq add_term_def next_rowid_def norm_drip
      better_definition_def)

theorem approve_keeps_rejection_reason_witness:
  "(hd (slang_terms db_drip) \<in> set (slang_terms db_drip) \<and>
    st_term (hd (slang_terms db_drip)) = strip (lower ''Drip'') \<and>
    0 < mention_count db_drip (st_id (hd (slang_terms db_drip))) \<and>
    int (length (slang_terms db_drip)) \<le> 20) \<and>
   (let db2 = snd (approve_term 8 (snd (reject_term 7 db_drip ''Drip'' ''spam'' ''admin'')) ''Drip'' ''root'');
        e = trending_dict db2
              ((hd (slang_terms db_drip))\<lparr>st_approval_status := ''approved'',
                 st_rejection_reason := Some ''spam'', st_approved_by := Some ''root'',
                 st_approved_at := Some 8\<rparr>)
    in e \<in> set (get_trending_terms db2 20 ''all'') \<and> tr_term e = st_term (hd (slang_terms db_drip)) \<and>
       tr_approval_status e = ''approved'' \<and> tr_rejection_reason e = Some ''spam'')"
proof -
  have h: "hd (slang_terms db_drip) \<in> set (slang_terms db_drip) \<and>
    st_term (hd (slang_terms db_drip)) = strip (lower ''Drip'') \<and>
    0 < mention_count db_drip (st_id (hd (slang_terms db_drip))) \<and>
    int (length (slang_terms db_drip)) \<le> 20"
    by (simp add: db_drip_eq norm_drip mention_count_def)
  show ?thesis
    using h approve_keeps_rejection_reason [THEN conjunct2, THEN mp, OF h] by (rule conjI)
qed

section \<open>Recording mentions\<close>

lemma add_term_known:
  assumes "list_ex (\<lambda>r. st_term r = strip (lower name)) (slang_terms db)"
  shows "\<exists>i. add_term now db name None cat = (Inr i, db)"
proof -
  from assms have "find (\<lambda>r. st_term r = strip (lower name)) (slang_terms db) \<noteq> None"
    by (auto simp: find_None_iff list_ex_iff)
  then obtain r where "find (\<lambda>r. st_term r = strip (lower name)) (slang_terms db) = Some r"
    by auto
  with assms show ?thesis by (simp add: add_term_def Let_def better_definition_def)
qed

lemma add_mention_known:
  assumes "list_ex (\<lambda>r. st_term r = strip (lower name)) (slang_terms db)"
  shows "fst (add_mention nt nm db name platform content eng) = Inr True"
    and "slang_terms (snd (add_mention nt nm db name platform content eng)) = slang_terms db"
    and "\<exists>m. mentions (snd (add_mention nt nm db name platform content eng)) = mentions db @ [m] \<and>
           Inr (m_term_id m) = fst (add_term nt db name None ''general'') \<and>
           m_platform m = platform \<and> m_content m = take 500 content \<and>
           m_engagement_score m = eng \<and> m_detected_at m = nm"
proof -
  from add_term_known [OF assms] obtain i where
    "add_term nt db name None ''general'' = (Inr i, db)" by blast
  then show "fst (add_mention nt nm db name platform content eng) = Inr True"
    and "slang_terms (snd (add_mention nt nm db name platform content eng)) = slang_terms db"
    and "\<exists>m. mentions (snd (add_mention nt nm db name platform content eng)) = mentions db @ [m] \<and>
           Inr (m_term_id m) = fst (add_term nt db name None ''general'') \<and>
           m_platform m = platform \<and> m_content m = take 500 content \<and>
           m_engagement_score m = eng \<and> m_detected_at m = nm"
    by (simp_all add: add_mention_def)
qed

lemma add_mention_unknown:
  assumes "\<not> list_ex (\<lambda>r. st_term r = strip (lower name)) (slang_terms db)"
  shows "fst (add_mention nt nm db name platform content eng) = Inr True"
    and "slang_terms (snd (add_mention nt nm db name platform content eng)) =
          slang_terms db @
            [\<lparr>st_id = next_rowid (map st_id (slang_terms db)), st_term = strip (lower name),
              st_definition = None, st_category = ''general'', st_approval_status = ''pending'',
              st_approved_by = None, st_approved_at = None, st_rejection_reason = None,
              st_first_seen = nt\<rparr>]"
    and "\<exists>m. mentions (snd (add_mention nt nm db name platform content eng)) = mentions db @ [m] \<and>
           Inr (m_term_id m) = fst (add_term nt db name None ''general'') \<and>
           m_platform m = platform \<and> m_content m = take 500 content \<and>
           m_engagement_score m = eng \<and> m_detected_at m = nm"
  using assms by (simp_all add: add_mention_def add_term_def Let_def)

end
